theory Spec2Isabelle
  imports Complex_Main "HOL-Library.Log_Nat" "HOL-Library.Sublist"
begin

section \<open>The scoring engine of core/scoring.py\<close>

text \<open>
  The engine is a library of pure functions over a design dictionary. Python numbers
  (ints and floats alike) are modelled as reals: arithmetic is exact, there is no
  rounding, no NaN and no infinity. The one exception is \<open>validate_parameter\<close>, whose
  status depends on the last bit of a difference: there the subtraction is rounded to
  double precision. A design is a record with one optional entry per key
  the code reads; \<open>None\<close> means that the key is absent from the dictionary. The numeric
  keys hold numbers and \<open>Material\<close> holds a string, so values of another Python type are
  outside the model. Every exception the code can raise is a value of \<open>py_error\<close>, and a
  function that can raise returns \<open>py_error + 'a\<close> with \<open>Inl\<close> for the exception.
\<close>

subsection \<open>Data model\<close>

datatype py_error = KeyError string | ZeroDivisionError | ValueError

record design =
  Size :: "real option"
  Charge :: "real option"
  Encapsulation :: "real option"
  PDI :: "real option"
  HydrodynamicSize :: "real option"
  Stability :: "real option"
  SurfaceArea :: "real option"
  DegradationTime :: "real option"
  Material :: "string option"

record impact =
  Delivery :: real
  Toxicity :: real
  Cost :: real

text \<open>\<open>d.get(key, default)\<close> on an entry of the record.\<close>

definition dict_get :: "'a option \<Rightarrow> 'a \<Rightarrow> 'a" where
  "dict_get entry dflt = (case entry of None \<Rightarrow> dflt | Some v \<Rightarrow> v)"

text \<open>Python's \<open>a / b\<close> on numbers: a zero divisor raises.\<close>

definition py_div :: "real \<Rightarrow> real \<Rightarrow> py_error + real" where
  "py_div a b = (if b = 0 then Inl ZeroDivisionError else Inr (a / b))"

subsection \<open>compute_impact\<close>

text \<open>
  The local variables of \<open>compute_impact\<close>, each as a function of the values it is
  computed from, in the order of the source (lines 14 to 79).
\<close>

definition size_score :: "real \<Rightarrow> real" where
  "size_score sz =
     (if 80 \<le> sz \<and> sz \<le> 120 then 100
      else if sz < 80 then (sz / 80) * 100
      else max 0 (100 - ((sz - 120) / 2)))"

definition charge_score :: "real \<Rightarrow> real" where
  "charge_score charge =
     (if \<bar>charge\<bar> \<le> 10 then 100
      else max 0 (100 - ((\<bar>charge\<bar> - 10) * 3)))"

definition pdi_score :: "real \<Rightarrow> real" where
  "pdi_score pdi = max 0 (100 - (pdi * 200))"

text \<open>
  \<open>size_ratio = hyd_size / d["Size"] if d["Size"] else 1.0\<close>: the division is only
  evaluated when the size is truthy, that is, not zero.
\<close>

definition size_ratio :: "real \<Rightarrow> real \<Rightarrow> py_error + real" where
  "size_ratio hyd_size sz = (if sz \<noteq> 0 then py_div hyd_size sz else Inr 1)"

definition hydrodynamic_score :: "real \<Rightarrow> real" where
  "hydrodynamic_score ratio =
     (if 1 \<le> ratio \<and> ratio \<le> 13 / 10 then 100
      else max 0 (100 - (\<bar>ratio - 115 / 100\<bar> * 50)))"

definition delivery :: "real \<Rightarrow> real \<Rightarrow> real \<Rightarrow> real \<Rightarrow> real \<Rightarrow> real \<Rightarrow> real" where
  "delivery sz_score ch_score encap_score p_score hyd_score stability =
     sz_score * (25 / 100)
     + ch_score * (20 / 100)
     + encap_score * (25 / 100)
     + p_score * (15 / 100)
     + hyd_score * (10 / 100)
     + stability * (5 / 100)"

definition base_toxicity :: "real \<Rightarrow> real \<Rightarrow> real" where
  "base_toxicity charge sz = min 10 ((\<bar>charge\<bar> / 10) + (max 0 \<bar>sz - 100\<bar> / 50))"

definition toxicity :: "real \<Rightarrow> real \<Rightarrow> real \<Rightarrow> real \<Rightarrow> real" where
  "toxicity charge sz pdi degradation_time =
     (let pdi_toxicity = pdi * 2;
          degradation_toxicity = max 0 ((degradation_time - 30) / 30)
      in min 10 (base_toxicity charge sz + pdi_toxicity + degradation_toxicity))"

definition base_cost :: "real \<Rightarrow> real \<Rightarrow> real" where
  "base_cost encap_score sz = min 100 ((100 - encap_score) * (8 / 10) + (sz / 4))"

definition cost :: "real \<Rightarrow> real \<Rightarrow> real \<Rightarrow> real \<Rightarrow> real \<Rightarrow> real" where
  "cost encap_score sz surface_area pdi degradation_time =
     (let surface_area_cost = surface_area / 20;
          pdi_cost = (2 / 10 - min pdi (2 / 10)) * 100;
          degradation_cost = max 0 ((degradation_time - 60) / 10)
      in min 100 (base_cost encap_score sz + surface_area_cost + pdi_cost + degradation_cost))"

text \<open>
  The required keys are read with \<open>d[...]\<close>, first \<open>Size\<close> (line 15), then \<open>Charge\<close>
  (line 23), then \<open>Encapsulation\<close> (line 29); the first one that is absent raises
  \<open>KeyError\<close>. The optional keys are read with \<open>d.get\<close> and a default.
\<close>

definition compute_impact :: "design \<Rightarrow> py_error + impact" where
  "compute_impact d =
     (case Size d of None \<Rightarrow> Inl (KeyError ''Size'') | Some sz \<Rightarrow>
      case Charge d of None \<Rightarrow> Inl (KeyError ''Charge'') | Some charge \<Rightarrow>
      case Encapsulation d of None \<Rightarrow> Inl (KeyError ''Encapsulation'') | Some encap_score \<Rightarrow>
        let pdi = dict_get (PDI d) (15 / 100);
            hyd_size = dict_get (HydrodynamicSize d) (sz * (12 / 10));
            stability = dict_get (Stability d) 85;
            surface_area = dict_get (SurfaceArea d) 250;
            degradation_time = dict_get (DegradationTime d) 30
        in case size_ratio hyd_size sz of Inl e \<Rightarrow> Inl e | Inr ratio \<Rightarrow>
             Inr \<lparr>Delivery = delivery (size_score sz) (charge_score charge) encap_score
                               (pdi_score pdi) (hydrodynamic_score ratio) stability,
                  Toxicity = toxicity charge sz pdi degradation_time,
                  Cost = cost encap_score sz surface_area pdi degradation_time\<rparr>)"

text \<open>The design of the worked example: only the three required keys are present.\<close>

definition example_design :: design where
  "example_design =
     \<lparr>Size = Some 100, Charge = Some 5, Encapsulation = Some 85, PDI = None,
      HydrodynamicSize = None, Stability = None, SurfaceArea = None,
      DegradationTime = None, Material = None\<rparr>"

subsection \<open>get_recommendations\<close>

text \<open>
  The message literals contain characters outside ASCII; a \<open>string\<close> here is the UTF-8
  encoding of the Python literal. The three markers that open the messages are the red
  circle U+1F534, the yellow circle U+1F7E1 and the check mark U+2705.
\<close>

definition red_circle :: string where
  "red_circle = [CHR 0xF0, CHR 0x9F, CHR 0x94, CHR 0xB4]"

definition yellow_circle :: string where
  "yellow_circle = [CHR 0xF0, CHR 0x9F, CHR 0x9F, CHR 0xA1]"

definition check_mark :: string where
  "check_mark = [CHR 0xE2, CHR 0x9C, CHR 0x85]"

definition en_dash :: string where
  "en_dash = [CHR 0xE2, CHR 0x80, CHR 0x93]"

definition plus_minus :: string where
  "plus_minus = [CHR 0xC2, CHR 0xB1]"

definition msg_increase_size :: string where
  "msg_increase_size =
     red_circle @ '' **Increase size to 80'' @ en_dash
     @ ''120nm** for better stability and circulation''"

definition msg_reduce_size :: string where
  "msg_reduce_size =
     red_circle @ '' **Reduce size to 80'' @ en_dash
     @ ''120nm** for better cellular uptake''"

definition msg_lower_charge :: string where
  "msg_lower_charge =
     yellow_circle @ '' **Lower surface charge** to '' @ plus_minus
     @ ''10mV for reduced toxicity''"

definition msg_reduce_charge :: string where
  "msg_reduce_charge =
     yellow_circle @ '' **Reduce charge** closer to neutral for optimal safety''"

definition msg_improve_encapsulation :: string where
  "msg_improve_encapsulation =
     red_circle @ '' **Improve encapsulation to >80%** for better drug delivery efficiency''"

definition msg_aim_encapsulation :: string where
  "msg_aim_encapsulation =
     yellow_circle @ '' **Aim for >85% encapsulation** for optimal performance''"

definition msg_excellent :: string where
  "msg_excellent =
     check_mark @ '' **Excellent design!** All parameters are within optimal ranges''"

text \<open>
  The list \<open>recommendations\<close> is threaded through the three \<open>if\<close>/\<open>elif\<close> statements;
  \<open>append\<close> adds at the end. The required keys are read in the order \<open>Size\<close> (line 87),
  \<open>Charge\<close> (line 92), \<open>Encapsulation\<close> (line 97).
\<close>

definition get_recommendations :: "design \<Rightarrow> py_error + string list" where
  "get_recommendations d =
     (let recommendations = [] in
      case Size d of None \<Rightarrow> Inl (KeyError ''Size'') | Some sz \<Rightarrow>
      let recommendations =
            (if sz < 80 then recommendations @ [msg_increase_size]
             else if sz > 150 then recommendations @ [msg_reduce_size]
             else recommendations) in
      case Charge d of None \<Rightarrow> Inl (KeyError ''Charge'') | Some charge \<Rightarrow>
      let recommendations =
            (if \<bar>charge\<bar> > 15 then recommendations @ [msg_lower_charge]
             else if \<bar>charge\<bar> > 10 then recommendations @ [msg_reduce_charge]
             else recommendations) in
      case Encapsulation d of None \<Rightarrow> Inl (KeyError ''Encapsulation'') | Some encap \<Rightarrow>
      let recommendations =
            (if encap < 70 then recommendations @ [msg_improve_encapsulation]
             else if encap < 85 then recommendations @ [msg_aim_encapsulation]
             else recommendations);
          recommendations =
            (if recommendations = [] then recommendations @ [msg_excellent]
             else recommendations)
      in Inr recommendations)"

subsection \<open>validate_parameter\<close>

text \<open>
  Python floats are IEEE 754 binary64 numbers, and \<open>value - lo\<close> on floats is the exact
  difference rounded to the nearest double, ties to the even significand. A double has
  a significand of 53 bits and an exponent of at least -1022 (below that the numbers are
  subnormal, with a spacing of 2^-1074). A difference that rounds to 2^1024 or more
  overflows to an infinity; it is represented by 2^1024 with its sign, which compares
  with the constant 20 as the infinity does.
\<close>

definition round_half_even :: "real \<Rightarrow> int" where
  "round_half_even y =
     (let f = \<lfloor>y\<rfloor>; d = y - of_int f
      in if d < 1 / 2 then f
         else if d > 1 / 2 then f + 1
         else if even f then f else f + 1)"

text \<open>
  The exponent \<open>e\<close> of the binade of \<open>x\<close>, 2^e <= |x| < 2^(e+1), and -1022 for the
  subnormal numbers and zero; the spacing of the doubles there is 2^(e-52).
\<close>

definition double_exponent :: "real \<Rightarrow> int" where
  "double_exponent x = max (- 1022) (bitlen \<lfloor>\<bar>x\<bar> * 2 ^ 1074\<rfloor> - 1075)"

definition round_double :: "real \<Rightarrow> real" where
  "round_double x =
     (let ulp = 2 powi (double_exponent x - 52);
          r = of_int (round_half_even (x / ulp)) * ulp
      in if \<bar>r\<bar> \<ge> 2 ^ 1024 then sgn r * 2 ^ 1024 else r)"

definition float_sub :: "real \<Rightarrow> real \<Rightarrow> real" where
  "float_sub a b = round_double (a - b)"

text \<open>
  \<open>lo, hi = optimal_range\<close> unpacks a list of exactly two elements and raises
  \<open>ValueError\<close> on any other length. The parameter name is not used. The two comparisons
  with the bounds are exact; the two differences of line 112 are rounded.
\<close>

fun validate_parameter :: "string \<Rightarrow> real \<Rightarrow> real list \<Rightarrow> py_error + string" where
  "validate_parameter param v [lo, hi] =
     (if lo \<le> v \<and> v \<le> hi then Inr check_mark
      else if \<bar>float_sub v lo\<bar> < 20 \<or> \<bar>float_sub v hi\<bar> < 20 then Inr yellow_circle
      else Inr red_circle)"
| "validate_parameter param v optimal_range = Inl ValueError"

subsection \<open>regulatory_checklist\<close>

text \<open>
  The dictionary \<open>checklist\<close> has eight distinct keys, so it is the list of its items in
  insertion order. Its values are evaluated in that order: \<open>Size\<close>, \<open>Charge\<close> and
  \<open>Encapsulation\<close> are read with \<open>design[...]\<close>, the other keys with \<open>design.get\<close>.
  \<open>passed\<close> sums the values as 0 and 1, \<open>total\<close> is the number of items.
\<close>

definition approved_materials :: "string list" where
  "approved_materials = [''Lipid NP'', ''PLGA'']"

definition material_approved :: "string option \<Rightarrow> bool" where
  "material_approved m = (case m of None \<Rightarrow> False | Some name \<Rightarrow> name \<in> set approved_materials)"

definition checklist :: "design \<Rightarrow> real \<Rightarrow> real \<Rightarrow> real \<Rightarrow> (string \<times> bool) list" where
  "checklist d sz charge encap =
     [(''Size < 200nm'', sz \<le> 200),
      (''PDI < 0.3'', dict_get (PDI d) (15 / 100) < 3 / 10),
      (''Charge within '' @ plus_minus @ ''30mV'', \<bar>charge\<bar> \<le> 30),
      (''Encapsulation > 70%'', encap \<ge> 70),
      (''Stability > 80%'', dict_get (Stability d) 85 \<ge> 80),
      (''Material approved for medical use'', material_approved (Material d)),
      (''Degradation products characterized'', dict_get (DegradationTime d) 30 < 90),
      (''Sterilization method defined'', True)]"

definition regulatory_checklist :: "design \<Rightarrow> py_error + real" where
  "regulatory_checklist d =
     (case Size d of None \<Rightarrow> Inl (KeyError ''Size'') | Some sz \<Rightarrow>
      case Charge d of None \<Rightarrow> Inl (KeyError ''Charge'') | Some charge \<Rightarrow>
      case Encapsulation d of None \<Rightarrow> Inl (KeyError ''Encapsulation'') | Some encap \<Rightarrow>
        let values = map snd (checklist d sz charge encap);
            passed = sum_list (map (\<lambda>v. if v then 1 else 0) values) :: nat;
            total = length values
        in case py_div (real passed) (real total) of Inl e \<Rightarrow> Inl e
           | Inr q \<Rightarrow> Inr (q * 100))"

subsection \<open>overall_score_from_impact\<close>

text \<open>\<open>np.clip(a, a_min, a_max)\<close> on a number is \<open>minimum(maximum(a, a_min), a_max)\<close>.\<close>

definition clip :: "real \<Rightarrow> real \<Rightarrow> real \<Rightarrow> real" where
  "clip a a_min a_max = min (max a a_min) a_max"

definition overall_score_from_impact :: "impact \<Rightarrow> real" where
  "overall_score_from_impact imp =
     clip ((Delivery imp * (6 / 10))
           + ((10 - Toxicity imp) * 3)
           + ((100 - Cost imp) * (1 / 10)))
          0 100"

subsection \<open>Concrete designs\<close>

text \<open>A design whose polydispersity index is negative and whose encapsulation exceeds 100.\<close>

definition out_of_range_design :: design where
  "out_of_range_design =
     \<lparr>Size = Some 100, Charge = Some 0, Encapsulation = Some 300, PDI = Some (- 1),
      HydrodynamicSize = None, Stability = None, SurfaceArea = None,
      DegradationTime = None, Material = None\<rparr>"

text \<open>Two designs that differ from an optimal one only in their charge.\<close>

definition high_charge_design :: design where
  "high_charge_design =
     \<lparr>Size = Some 100, Charge = Some 20, Encapsulation = Some 90, PDI = None,
      HydrodynamicSize = None, Stability = None, SurfaceArea = None,
      DegradationTime = None, Material = None\<rparr>"

definition moderate_charge_design :: design where
  "moderate_charge_design =
     \<lparr>Size = Some 100, Charge = Some (- 12), Encapsulation = Some 90, PDI = None,
      HydrodynamicSize = None, Stability = None, SurfaceArea = None,
      DegradationTime = None, Material = None\<rparr>"

text \<open>A design of size zero with an explicit hydrodynamic size.\<close>

definition zero_size_design :: design where
  "zero_size_design =
     \<lparr>Size = Some 0, Charge = Some 5, Encapsulation = Some 85, PDI = None,
      HydrodynamicSize = Some 50, Stability = None, SurfaceArea = None,
      DegradationTime = None, Material = None\<rparr>"

text \<open>A design that is optimal in every respect the checklist looks at.\<close>

definition optimal_design :: design where
  "optimal_design =
     \<lparr>Size = Some 100, Charge = Some 0, Encapsulation = Some 90, PDI = Some (1 / 10),
      HydrodynamicSize = None, Stability = Some 90, SurfaceArea = None,
      DegradationTime = Some 20, Material = Some ''Lipid NP''\<rparr>"

section \<open>Properties\<close>

lemmas impact_defs =
  compute_impact_def dict_get_def size_ratio_def py_div_def size_score_def charge_score_def
  pdi_score_def hydrodynamic_score_def delivery_def base_toxicity_def toxicity_def
  base_cost_def cost_def

text \<open>
  C1 (as the code computes it). For the design \<open>{Size:100, Charge:5, Encapsulation:85}\<close>
  with every optional key absent, the sub-scores are size 100, charge 100, PDI 70,
  hydrodynamic 100 (the ratio is 1.2), and \<open>compute_impact\<close> returns Delivery = 91,
  Toxicity = 0.8 and Cost = 54.5. The weighted sum
  100*0.25 + 100*0.20 + 85*0.25 + 70*0.15 + 100*0.10 + 85*0.05 is 91, not 92.
\<close>

theorem example_impact:
  "size_score 100 = 100 \<and> charge_score 5 = 100 \<and> pdi_score (15 / 100) = 70
   \<and> size_ratio (100 * (12 / 10)) 100 = Inr (12 / 10) \<and> hydrodynamic_score (12 / 10) = 100
   \<and> delivery 100 100 85 70 100 85 = 91
   \<and> compute_impact example_design = Inr \<lparr>Delivery = 91, Toxicity = 8 / 10, Cost = 545 / 10\<rparr>"
  by (simp add: impact_defs example_design_def)

text \<open>
  C1 (as stated) fails: the result for the example design is not the triple with
  Delivery = 92.
\<close>

theorem example_impact_not_92:
  "compute_impact example_design \<noteq> Inr \<lparr>Delivery = 92, Toxicity = 8 / 10, Cost = 545 / 10\<rparr>"
  by (simp add: impact_defs example_design_def)

subsection \<open>The result of compute_impact when the required keys are present\<close>

lemma compute_impact_Inr:
  assumes "Size d = Some sz" "Charge d = Some ch" "Encapsulation d = Some en"
  shows "compute_impact d =
     Inr \<lparr>Delivery = delivery (size_score sz) (charge_score ch) en
                       (pdi_score (dict_get (PDI d) (15 / 100)))
                       (hydrodynamic_score
                          (if sz \<noteq> 0 then dict_get (HydrodynamicSize d) (sz * (12 / 10)) / sz else 1))
                       (dict_get (Stability d) 85),
          Toxicity = toxicity ch sz (dict_get (PDI d) (15 / 100)) (dict_get (DegradationTime d) 30),
          Cost = cost en sz (dict_get (SurfaceArea d) 250) (dict_get (PDI d) (15 / 100))
                   (dict_get (DegradationTime d) 30)\<rparr>"
  using assms by (simp add: compute_impact_def size_ratio_def py_div_def Let_def)

subsection \<open>Bounds of toxicity and cost\<close>

text \<open>The two final clamps of the code bound the results from above.\<close>

lemma toxicity_le: "toxicity ch sz pdi dt \<le> 10"
  by (simp add: toxicity_def Let_def)

lemma cost_le: "cost en sz sa pdi dt \<le> 100"
  by (simp add: cost_def Let_def)

text \<open>
  C2. The docstring of \<open>compute_impact\<close> and the comments of lines 58 and 69 give the
  ranges toxicity 0-10 and cost 0-100, and the claim states them for every finite input.
  The code clamps only the upper ends: for the design with Size = 100, Charge = 0,
  Encapsulation = 300 and PDI = -1 it returns Toxicity = -2 and Cost = -2.5, both below
  0.
\<close>

theorem negative_toxicity_and_cost:
  "compute_impact out_of_range_design
     = Inr \<lparr>Delivery = 717 / 4, Toxicity = - 2, Cost = - (5 / 2)\<rparr>
   \<and> \<not> (0 \<le> (- 2 :: real)) \<and> \<not> (0 \<le> (- (5 / 2) :: real))"
  by (simp add: impact_defs out_of_range_design_def)

subsection \<open>The size sub-score\<close>

lemma size_score_ramp: "sz \<le> 80 \<Longrightarrow> size_score sz = (sz / 80) * 100"
  by (simp add: size_score_def)

lemma size_score_continuous: "continuous_on {0..80} size_score"
proof -
  have "continuous_on {0..80} size_score
          \<longleftrightarrow> continuous_on {0..80} (\<lambda>sz::real. (sz / 80) * 100)"
    by (rule continuous_on_cong) (simp_all add: size_score_ramp)
  moreover have "continuous_on {0..80} (\<lambda>sz::real. (sz / 80) * 100)"
    by (intro continuous_intros) simp_all
  ultimately show ?thesis
    by blast
qed

text \<open>
  C3. The size sub-score is 100 on [80,120]; it is (Size/80)*100 below 80, hence
  continuous and non-decreasing on [0,80]; it is max(0, 100 - (Size-120)/2) above 120,
  non-increasing there, and 0 from Size = 320 on.
\<close>

theorem size_score_shape:
  "(80 \<le> s \<and> s \<le> 120 \<longrightarrow> size_score s = 100)
   \<and> (s < 80 \<longrightarrow> size_score s = (s / 80) * 100)
   \<and> (120 < s \<longrightarrow> size_score s = max 0 (100 - (s - 120) / 2))
   \<and> continuous_on {0..80} size_score
   \<and> (0 \<le> s \<and> s \<le> t \<and> t \<le> 80 \<longrightarrow> size_score s \<le> size_score t)
   \<and> (120 < s \<and> s \<le> t \<longrightarrow> size_score t \<le> size_score s)
   \<and> (320 \<le> s \<longrightarrow> size_score s = 0)"
proof -
  have plateau: "80 \<le> s \<and> s \<le> 120 \<longrightarrow> size_score s = 100"
    by (simp add: size_score_def)
  have ramp: "s < 80 \<longrightarrow> size_score s = (s / 80) * 100"
    by (simp add: size_score_def)
  have decay: "120 < s \<longrightarrow> size_score s = max 0 (100 - (s - 120) / 2)"
    by (simp add: size_score_def)
  have up: "0 \<le> s \<and> s \<le> t \<and> t \<le> 80 \<longrightarrow> size_score s \<le> size_score t"
    by (simp add: size_score_ramp)
  have down: "120 < s \<and> s \<le> t \<longrightarrow> size_score t \<le> size_score s"
    by (auto simp add: size_score_def max_def)
  have floor: "320 \<le> s \<longrightarrow> size_score s = 0"
    by (simp add: size_score_def)
  from plateau ramp decay size_score_continuous up down floor show ?thesis
    by blast
qed

theorem size_score_shape_witness:
  "size_score 100 = 100 \<and> size_score 40 = 50 \<and> size_score 200 = 60
   \<and> size_score 40 \<le> size_score 60 \<and> size_score 300 \<le> size_score 200
   \<and> size_score 400 = 0"
  using size_score_shape [of 100 100] size_score_shape [of 40 60]
    size_score_shape [of 200 300] size_score_shape [of 400 400]
  by simp

subsection \<open>The composite score\<close>

lemma clip_mono: "a \<le> b \<Longrightarrow> clip a lo hi \<le> clip b lo hi"
  by (simp add: clip_def min_def max_def)

lemma clip_cases:
  "lo \<le> hi \<Longrightarrow> clip a lo hi = (if a < lo then lo else if a > hi then hi else a)"
  by (simp add: clip_def min_def max_def)

lemma clip_bounds: "lo \<le> hi \<Longrightarrow> lo \<le> clip a lo hi \<and> clip a lo hi \<le> hi"
  by (simp add: clip_def min_def max_def)

text \<open>
  C4. \<open>overall_score_from_impact\<close> is Delivery*0.6 + (10-Toxicity)*3 + (100-Cost)*0.1
  clipped to [0,100]: 0 below 0, 100 above 100, the sum itself in between. With the other
  two components fixed, a larger Delivery never gives a smaller score, and a larger
  Toxicity or a larger Cost never gives a larger score.
\<close>

theorem overall_score_monotone:
  "overall_score_from_impact i =
     (let raw = Delivery i * (6 / 10) + (10 - Toxicity i) * 3 + (100 - Cost i) * (1 / 10)
      in if raw < 0 then 0 else if raw > 100 then 100 else raw)
   \<and> 0 \<le> overall_score_from_impact i \<and> overall_score_from_impact i \<le> 100
   \<and> (Delivery i \<le> Delivery j \<and> Toxicity i = Toxicity j \<and> Cost i = Cost j
        \<longrightarrow> overall_score_from_impact i \<le> overall_score_from_impact j)
   \<and> (Toxicity i \<le> Toxicity j \<and> Delivery i = Delivery j \<and> Cost i = Cost j
        \<longrightarrow> overall_score_from_impact j \<le> overall_score_from_impact i)
   \<and> (Cost i \<le> Cost j \<and> Delivery i = Delivery j \<and> Toxicity i = Toxicity j
        \<longrightarrow> overall_score_from_impact j \<le> overall_score_from_impact i)"
proof -
  have formula: "overall_score_from_impact i =
     (let raw = Delivery i * (6 / 10) + (10 - Toxicity i) * 3 + (100 - Cost i) * (1 / 10)
      in if raw < 0 then 0 else if raw > 100 then 100 else raw)"
    unfolding overall_score_from_impact_def Let_def by (rule clip_cases) simp
  have range: "0 \<le> overall_score_from_impact i \<and> overall_score_from_impact i \<le> 100"
    unfolding overall_score_from_impact_def by (rule clip_bounds) simp
  have del: "Delivery i \<le> Delivery j \<and> Toxicity i = Toxicity j \<and> Cost i = Cost j
        \<longrightarrow> overall_score_from_impact i \<le> overall_score_from_impact j"
    unfolding overall_score_from_impact_def by (auto intro!: clip_mono)
  have tox: "Toxicity i \<le> Toxicity j \<and> Delivery i = Delivery j \<and> Cost i = Cost j
        \<longrightarrow> overall_score_from_impact j \<le> overall_score_from_impact i"
    unfolding overall_score_from_impact_def by (auto intro!: clip_mono)
  have cst: "Cost i \<le> Cost j \<and> Delivery i = Delivery j \<and> Toxicity i = Toxicity j
        \<longrightarrow> overall_score_from_impact j \<le> overall_score_from_impact i"
    unfolding overall_score_from_impact_def by (auto intro!: clip_mono)
  from formula range del tox cst show ?thesis
    by blast
qed

theorem overall_score_monotone_witness:
  "overall_score_from_impact \<lparr>Delivery = 50, Toxicity = 5, Cost = 50\<rparr>
     \<le> overall_score_from_impact \<lparr>Delivery = 60, Toxicity = 5, Cost = 50\<rparr>
   \<and> overall_score_from_impact \<lparr>Delivery = 50, Toxicity = 6, Cost = 50\<rparr>
     \<le> overall_score_from_impact \<lparr>Delivery = 50, Toxicity = 5, Cost = 50\<rparr>
   \<and> overall_score_from_impact \<lparr>Delivery = 50, Toxicity = 5, Cost = 60\<rparr>
     \<le> overall_score_from_impact \<lparr>Delivery = 50, Toxicity = 5, Cost = 50\<rparr>"
  using
    overall_score_monotone [of "\<lparr>Delivery = 50, Toxicity = 5, Cost = 50\<rparr>"
                               "\<lparr>Delivery = 60, Toxicity = 5, Cost = 50\<rparr>"]
    overall_score_monotone [of "\<lparr>Delivery = 50, Toxicity = 5, Cost = 50\<rparr>"
                               "\<lparr>Delivery = 50, Toxicity = 6, Cost = 50\<rparr>"]
    overall_score_monotone [of "\<lparr>Delivery = 50, Toxicity = 5, Cost = 50\<rparr>"
                               "\<lparr>Delivery = 50, Toxicity = 5, Cost = 60\<rparr>"]
  by simp

subsection \<open>Recommendations\<close>

lemmas message_defs =
  msg_increase_size_def msg_reduce_size_def msg_lower_charge_def msg_reduce_charge_def
  msg_improve_encapsulation_def msg_aim_encapsulation_def msg_excellent_def
  red_circle_def yellow_circle_def check_mark_def

lemma messages_distinct:
  "distinct [msg_increase_size, msg_reduce_size, msg_lower_charge, msg_reduce_charge,
             msg_improve_encapsulation, msg_aim_encapsulation, msg_excellent]"
  by (simp add: message_defs)

lemma get_recommendations_Inr:
  assumes "Size d = Some sz" "Charge d = Some ch" "Encapsulation d = Some en"
  shows "get_recommendations d =
    Inr (let r = (if sz < 80 then [msg_increase_size] else if sz > 150 then [msg_reduce_size] else [])
               @ (if \<bar>ch\<bar> > 15 then [msg_lower_charge] else if \<bar>ch\<bar> > 10 then [msg_reduce_charge] else [])
               @ (if en < 70 then [msg_improve_encapsulation] else if en < 85 then [msg_aim_encapsulation] else [])
         in if r = [] then [msg_excellent] else r)"
  using assms by (simp add: get_recommendations_def Let_def)

text \<open>
  C5. For every design with the required keys, the result of \<open>get_recommendations\<close> is
  made of at most one size message, then at most one charge message, then at most one
  encapsulation message; a category contributes a message exactly when one of its
  conditions holds. The result is the single fallback message if no category contributed,
  and it is that single message only then.
\<close>

theorem recommendations_structure:
  assumes "Size d = Some sz" "Charge d = Some ch" "Encapsulation d = Some en"
  shows "\<exists>s c e.
      get_recommendations d = Inr (if s @ c @ e = [] then [msg_excellent] else s @ c @ e)
    \<and> (s = [] \<or> s = [msg_increase_size] \<or> s = [msg_reduce_size])
    \<and> (c = [] \<or> c = [msg_lower_charge] \<or> c = [msg_reduce_charge])
    \<and> (e = [] \<or> e = [msg_improve_encapsulation] \<or> e = [msg_aim_encapsulation])
    \<and> (s \<noteq> [] \<longleftrightarrow> sz < 80 \<or> sz > 150)
    \<and> (c \<noteq> [] \<longleftrightarrow> \<bar>ch\<bar> > 10)
    \<and> (e \<noteq> [] \<longleftrightarrow> en < 85)
    \<and> (get_recommendations d = Inr [msg_excellent]
          \<longleftrightarrow> \<not> (sz < 80 \<or> sz > 150) \<and> \<not> \<bar>ch\<bar> > 10 \<and> \<not> en < 85)"
proof -
  define s where "s = (if sz < 80 then [msg_increase_size] else if sz > 150 then [msg_reduce_size] else [])"
  define c where "c = (if \<bar>ch\<bar> > 15 then [msg_lower_charge] else if \<bar>ch\<bar> > 10 then [msg_reduce_charge] else [])"
  define e where "e = (if en < 70 then [msg_improve_encapsulation] else if en < 85 then [msg_aim_encapsulation] else [])"
  have res: "get_recommendations d = Inr (if s @ c @ e = [] then [msg_excellent] else s @ c @ e)"
    by (simp add: get_recommendations_Inr [OF assms] s_def c_def e_def Let_def)
  have s_shape: "s = [] \<or> s = [msg_increase_size] \<or> s = [msg_reduce_size]"
    by (simp add: s_def)
  have c_shape: "c = [] \<or> c = [msg_lower_charge] \<or> c = [msg_reduce_charge]"
    by (simp add: c_def)
  have e_shape: "e = [] \<or> e = [msg_improve_encapsulation] \<or> e = [msg_aim_encapsulation]"
    by (simp add: e_def)
  have s_iff: "s \<noteq> [] \<longleftrightarrow> sz < 80 \<or> sz > 150"
    by (simp add: s_def)
  have c_iff: "c \<noteq> [] \<longleftrightarrow> \<bar>ch\<bar> > 10"
    by (auto simp add: c_def)
  have e_iff: "e \<noteq> [] \<longleftrightarrow> en < 85"
    by (auto simp add: e_def)
  have no_fallback: "msg_excellent \<notin> set (s @ c @ e)"
    using messages_distinct by (auto simp add: s_def c_def e_def)
  have "get_recommendations d = Inr [msg_excellent] \<longleftrightarrow> s @ c @ e = []"
  proof
    assume a: "get_recommendations d = Inr [msg_excellent]"
    show "s @ c @ e = []"
    proof (rule ccontr)
      assume ne: "s @ c @ e \<noteq> []"
      with res have "get_recommendations d = Inr (s @ c @ e)" by (simp only: if_False)
      with a have "s @ c @ e = [msg_excellent]" by (simp only: sum.inject)
      then have "msg_excellent \<in> set (s @ c @ e)" by (simp only: list.set_intros)
      with no_fallback show False by blast
    qed
  next
    assume "s @ c @ e = []"
    with res show "get_recommendations d = Inr [msg_excellent]" by simp
  qed
  with s_iff c_iff e_iff
  have fallback: "get_recommendations d = Inr [msg_excellent]
          \<longleftrightarrow> \<not> (sz < 80 \<or> sz > 150) \<and> \<not> \<bar>ch\<bar> > 10 \<and> \<not> en < 85"
    by auto
  from res s_shape c_shape e_shape s_iff c_iff e_iff fallback show ?thesis
    by blast
qed

theorem recommendations_structure_witness:
  "Size high_charge_design = Some 100 \<and> Charge high_charge_design = Some 20
   \<and> Encapsulation high_charge_design = Some 90
   \<and> get_recommendations high_charge_design \<noteq> Inr [msg_excellent]"
proof -
  have h1: "Size high_charge_design = Some 100"
    and h2: "Charge high_charge_design = Some 20"
    and h3: "Encapsulation high_charge_design = Some 90"
    by (simp_all add: high_charge_design_def)
  from recommendations_structure [OF h1 h2 h3]
  have "get_recommendations high_charge_design = Inr [msg_excellent]
          \<longleftrightarrow> \<not> ((100::real) < 80 \<or> (100::real) > 150) \<and> \<not> \<bar>20::real\<bar> > 10 \<and> \<not> (90::real) < 85"
    by blast
  then have "get_recommendations high_charge_design \<noteq> Inr [msg_excellent]"
    by simp
  with h1 h2 h3 show ?thesis
    by blast
qed


lemma charge_markers:
  "prefix yellow_circle msg_lower_charge \<and> \<not> prefix red_circle msg_lower_charge
   \<and> prefix yellow_circle msg_reduce_charge"
  by (simp add: msg_lower_charge_def msg_reduce_charge_def red_circle_def yellow_circle_def)

text \<open>
  C6 (as stated) fails: for Charge = 20 the charge message is the "Lower surface charge"
  message, and it opens with the yellow circle of the medium tier, not with the red
  circle of the high tier.
\<close>

theorem lower_charge_marker_not_red:
  "get_recommendations high_charge_design = Inr [msg_lower_charge]
   \<and> \<not> prefix red_circle msg_lower_charge"
proof -
  have "get_recommendations high_charge_design = Inr [msg_lower_charge]"
    by (simp add: get_recommendations_def high_charge_design_def Let_def)
  with charge_markers show ?thesis
    by blast
qed

text \<open>
  C6 (amended). For every design with |Charge| > 15 the result contains the "Lower
  surface charge" message and not the "Reduce charge" message; for 10 < |Charge| <= 15
  it contains the "Reduce charge" message and not the other. Both messages open with the
  yellow circle, the medium-severity marker.
\<close>

theorem charge_recommendation:
  assumes "Size d = Some sz" "Charge d = Some ch" "Encapsulation d = Some en"
  shows "\<exists>r. get_recommendations d = Inr r
     \<and> (\<bar>ch\<bar> > 15 \<longrightarrow> msg_lower_charge \<in> set r \<and> msg_reduce_charge \<notin> set r)
     \<and> (10 < \<bar>ch\<bar> \<and> \<bar>ch\<bar> \<le> 15 \<longrightarrow> msg_reduce_charge \<in> set r \<and> msg_lower_charge \<notin> set r)
     \<and> prefix yellow_circle msg_lower_charge \<and> \<not> prefix red_circle msg_lower_charge
     \<and> prefix yellow_circle msg_reduce_charge"
proof -
  define s where "s = (if sz < 80 then [msg_increase_size] else if sz > 150 then [msg_reduce_size] else [])"
  define c where "c = (if \<bar>ch\<bar> > 15 then [msg_lower_charge] else if \<bar>ch\<bar> > 10 then [msg_reduce_charge] else [])"
  define e where "e = (if en < 70 then [msg_improve_encapsulation] else if en < 85 then [msg_aim_encapsulation] else [])"
  define r where "r = (if s @ c @ e = [] then [msg_excellent] else s @ c @ e)"
  have res: "get_recommendations d = Inr r"
    by (simp add: get_recommendations_Inr [OF assms] r_def s_def c_def e_def Let_def)
  have neq: "msg_lower_charge \<noteq> msg_reduce_charge"
    "msg_lower_charge \<notin> set s" "msg_reduce_charge \<notin> set s"
    "msg_lower_charge \<notin> set e" "msg_reduce_charge \<notin> set e"
    using messages_distinct by (auto simp add: s_def e_def)
  have high: "\<bar>ch\<bar> > 15 \<longrightarrow> msg_lower_charge \<in> set r \<and> msg_reduce_charge \<notin> set r"
  proof
    assume "\<bar>ch\<bar> > 15"
    then have "c = [msg_lower_charge]" by (simp add: c_def)
    then have "r = s @ [msg_lower_charge] @ e" by (simp add: r_def)
    with neq show "msg_lower_charge \<in> set r \<and> msg_reduce_charge \<notin> set r" by auto
  qed
  have medium: "10 < \<bar>ch\<bar> \<and> \<bar>ch\<bar> \<le> 15 \<longrightarrow> msg_reduce_charge \<in> set r \<and> msg_lower_charge \<notin> set r"
  proof
    assume "10 < \<bar>ch\<bar> \<and> \<bar>ch\<bar> \<le> 15"
    then have "c = [msg_reduce_charge]" by (simp add: c_def)
    then have "r = s @ [msg_reduce_charge] @ e" by (simp add: r_def)
    with neq show "msg_reduce_charge \<in> set r \<and> msg_lower_charge \<notin> set r" by auto
  qed
  from res high medium charge_markers show ?thesis
    by blast
qed

theorem charge_recommendation_witness:
  "Size high_charge_design = Some 100 \<and> Charge high_charge_design = Some 20
   \<and> Encapsulation high_charge_design = Some 90 \<and> \<bar>20 :: real\<bar> > 15
   \<and> Size moderate_charge_design = Some 100 \<and> Charge moderate_charge_design = Some (- 12)
   \<and> Encapsulation moderate_charge_design = Some 90
   \<and> 10 < \<bar>- 12 :: real\<bar> \<and> \<bar>- 12 :: real\<bar> \<le> 15
   \<and> (\<exists>r. get_recommendations high_charge_design = Inr r \<and> msg_lower_charge \<in> set r
          \<and> msg_reduce_charge \<notin> set r)
   \<and> (\<exists>r. get_recommendations moderate_charge_design = Inr r \<and> msg_reduce_charge \<in> set r
          \<and> msg_lower_charge \<notin> set r)"
proof -
  have h: "Size high_charge_design = Some 100" "Charge high_charge_design = Some 20"
    "Encapsulation high_charge_design = Some 90"
    by (simp_all add: high_charge_design_def)
  have m: "Size moderate_charge_design = Some 100" "Charge moderate_charge_design = Some (- 12)"
    "Encapsulation moderate_charge_design = Some 90"
    by (simp_all add: moderate_charge_design_def)
  have bounds: "\<bar>20 :: real\<bar> > 15" "10 < \<bar>- 12 :: real\<bar>" "\<bar>- 12 :: real\<bar> \<le> 15"
    by simp_all
  from charge_recommendation [OF h] bounds
  have high: "\<exists>r. get_recommendations high_charge_design = Inr r \<and> msg_lower_charge \<in> set r
          \<and> msg_reduce_charge \<notin> set r"
    by blast
  from charge_recommendation [OF m] bounds
  have medium: "\<exists>r. get_recommendations moderate_charge_design = Inr r \<and> msg_reduce_charge \<in> set r
          \<and> msg_lower_charge \<notin> set r"
    by blast
  from h m bounds high medium show ?thesis
    by blast
qed

subsection \<open>Rounding to double precision\<close>

lemma round_half_even_of_int: "round_half_even (of_int n) = n"
  by (simp add: round_half_even_def)

lemma round_half_even_ge: "of_int n \<le> y \<Longrightarrow> n \<le> round_half_even y"
proof -
  assume "of_int n \<le> y"
  then have "n \<le> \<lfloor>y\<rfloor>" by (simp add: le_floor_iff)
  moreover have "\<lfloor>y\<rfloor> \<le> round_half_even y"
    by (simp add: round_half_even_def Let_def)
  ultimately show ?thesis by linarith
qed

lemma round_half_even_le: "y \<le> of_int n \<Longrightarrow> round_half_even y \<le> n"
proof (cases "y = of_int n")
  case True
  then show ?thesis by (simp add: round_half_even_of_int)
next
  case False
  assume "y \<le> of_int n"
  with False have "y < of_int n" by simp
  then have "\<lfloor>y\<rfloor> < n" by (simp add: floor_less_iff)
  moreover have "round_half_even y \<le> \<lfloor>y\<rfloor> + 1"
    by (simp add: round_half_even_def Let_def)
  ultimately show ?thesis by linarith
qed


lemma two_powi_nat_div: "0 \<le> b \<Longrightarrow> (2::real) ^ nat b / 2 ^ 1074 = 2 powi (b - 1074)"
proof -
  assume b: "0 \<le> b"
  have "(2::real) powi (b - 1074) = 2 powi b / 2 powi 1074"
    by (rule power_int_diff) simp
  also from b have "(2::real) powi b = 2 ^ nat b"
    by (simp add: power_int_def)
  finally show ?thesis by simp
qed

lemma double_exponent_ge: "- 1022 \<le> double_exponent x"
  by (simp add: double_exponent_def)

lemma double_exponent_upper: "\<bar>x\<bar> < 2 powi (double_exponent x + 1)"
proof -
  define n where "n = \<lfloor>\<bar>x\<bar> * 2 ^ 1074\<rfloor>"
  have n0: "0 \<le> n" by (simp add: n_def)
  have b0: "0 \<le> bitlen n" by (rule bitlen_nonneg)
  have "n < 2 ^ nat (bitlen n)"
  proof (cases "n = 0")
    case True
    then show ?thesis by simp
  next
    case False
    with n0 have "0 < n" by simp
    then show ?thesis using bitlen_bounds [of n] by simp
  qed
  then have "n + 1 \<le> 2 ^ nat (bitlen n)" by simp
  then have "real_of_int (n + 1) \<le> real_of_int (2 ^ nat (bitlen n))"
    by (simp only: of_int_le_iff)
  then have le: "real_of_int n + 1 \<le> 2 ^ nat (bitlen n)" by simp
  have "\<bar>x\<bar> * 2 ^ 1074 < real_of_int n + 1"
    unfolding n_def by linarith
  with le have "\<bar>x\<bar> * 2 ^ 1074 < 2 ^ nat (bitlen n)" by linarith
  then have "\<bar>x\<bar> < 2 ^ nat (bitlen n) / 2 ^ 1074"
    by (simp add: pos_less_divide_eq)
  also have "\<dots> = 2 powi (bitlen n - 1074)"
    using b0 by (rule two_powi_nat_div)
  also have "\<dots> \<le> 2 powi (double_exponent x + 1)"
    by (rule power_int_increasing) (simp_all add: double_exponent_def n_def)
  finally show ?thesis .
qed

lemma double_exponent_lower:
  assumes "- 1022 < double_exponent x"
  shows "2 powi double_exponent x \<le> \<bar>x\<bar>"
proof -
  define n where "n = \<lfloor>\<bar>x\<bar> * 2 ^ 1074\<rfloor>"
  from assms have e: "double_exponent x = bitlen n - 1075"
    by (simp add: double_exponent_def n_def max_def split: if_splits)
  with assms have b: "54 \<le> bitlen n" by simp
  have "0 < n"
  proof (rule ccontr)
    assume "\<not> 0 < n"
    then have "bitlen n = 0" by (simp add: bitlen_eq_zero_iff)
    with b show False by simp
  qed
  then have "2 ^ nat (bitlen n - 1) \<le> n" using bitlen_bounds [of n] by simp
  then have "real_of_int (2 ^ nat (bitlen n - 1)) \<le> real_of_int n"
    by (simp only: of_int_le_iff)
  then have "2 ^ nat (bitlen n - 1) \<le> real_of_int n" by simp
  also have "real_of_int n \<le> \<bar>x\<bar> * 2 ^ 1074"
    unfolding n_def by (rule of_int_floor_le)
  finally have "2 ^ nat (bitlen n - 1) / 2 ^ 1074 \<le> \<bar>x\<bar>"
    by (simp add: pos_divide_le_eq)
  moreover from b have "(2::real) ^ nat (bitlen n - 1) / 2 ^ 1074 = 2 powi (bitlen n - 1 - 1074)"
    by (intro two_powi_nat_div) simp
  ultimately show ?thesis by (simp add: e)
qed

lemma two_powi_less_D: "(2::real) powi a < 2 powi b \<Longrightarrow> a < b"
proof (rule ccontr)
  assume less: "(2::real) powi a < 2 powi b" and "\<not> a < b"
  then have "b \<le> a" by simp
  then have "(2::real) powi b \<le> 2 powi a"
    by (rule power_int_increasing) simp
  with less show False by simp
qed

lemma double_exponent_eqI:
  assumes lo: "2 powi e \<le> \<bar>x\<bar>" and hi: "\<bar>x\<bar> < 2 powi (e + 1)" and e: "- 1022 \<le> e"
  shows "double_exponent x = e"
proof -
  have "(2::real) powi e < 2 powi (double_exponent x + 1)"
    using lo double_exponent_upper [of x] by linarith
  then have "e < double_exponent x + 1"
    by (rule two_powi_less_D)
  then have 1: "e \<le> double_exponent x" by simp
  show ?thesis
  proof (cases "- 1022 < double_exponent x")
    case True
    then have "(2::real) powi double_exponent x < 2 powi (e + 1)"
      using double_exponent_lower [of x] hi by linarith
    then have "double_exponent x < e + 1"
      by (rule two_powi_less_D)
    with 1 show ?thesis by simp
  next
    case False
    with double_exponent_ge [of x] have "double_exponent x = - 1022" by simp
    with 1 e show ?thesis by simp
  qed
qed


lemma round_double_ge_20:
  assumes "20 \<le> \<bar>x\<bar>"
  shows "20 \<le> \<bar>round_double x\<bar>"
proof -
  define e where "e = double_exponent x"
  define ulp where "ulp = (2::real) powi (e - 52)"
  define r where "r = real_of_int (round_half_even (x / ulp)) * ulp"
  have ulp_pos: "0 < ulp" by (simp add: ulp_def)
  have "(2::real) powi 4 < 2 powi (e + 1)"
    using assms double_exponent_upper [of x] by (simp add: e_def)
  then have "4 < e + 1" by (rule two_powi_less_D)
  then have e4: "4 \<le> e" by simp
  then have "- 1022 < double_exponent x" by (simp add: e_def)
  then have lower: "2 powi e \<le> \<bar>x\<bar>"
    unfolding e_def by (rule double_exponent_lower)
  have "\<exists>k::int. 20 \<le> real_of_int k * ulp \<and> real_of_int k * ulp \<le> \<bar>x\<bar> \<and> 0 \<le> k"
  proof (cases "e \<le> 54")
    case True
    define k :: int where "k = 5 * 2 ^ nat (54 - e)"
    have "real_of_int k = 5 * 2 powi (54 - e)"
      using True by (simp add: k_def power_int_def)
    then have "real_of_int k * ulp = 5 * (2 powi (54 - e) * 2 powi (e - 52))"
      by (simp add: ulp_def)
    also have "(2::real) powi (54 - e) * 2 powi (e - 52) = 2 powi ((54 - e) + (e - 52))"
      by (rule power_int_add [symmetric]) simp
    finally have "real_of_int k * ulp = 20" by simp
    moreover have "0 \<le> k" by (simp add: k_def)
    ultimately have "20 \<le> real_of_int k * ulp \<and> real_of_int k * ulp \<le> \<bar>x\<bar> \<and> 0 \<le> k"
      using assms by simp
    then show ?thesis by (rule exI)
  next
    case False
    define k :: int where "k = 2 ^ 52"
    have "real_of_int k * ulp = 2 powi 52 * 2 powi (e - 52)"
      by (simp add: k_def ulp_def)
    also have "\<dots> = 2 powi (52 + (e - 52))"
      by (rule power_int_add [symmetric]) simp
    finally have eq: "real_of_int k * ulp = 2 powi e" by simp
    from False have "(2::real) powi 5 \<le> 2 powi e"
      by (intro power_int_increasing) simp_all
    then have "20 \<le> (2::real) powi e" by simp
    with eq lower have "20 \<le> real_of_int k * ulp \<and> real_of_int k * ulp \<le> \<bar>x\<bar>" by simp
    moreover have "0 \<le> k" by (simp add: k_def)
    ultimately have "20 \<le> real_of_int k * ulp \<and> real_of_int k * ulp \<le> \<bar>x\<bar> \<and> 0 \<le> k"
      by simp
    then show ?thesis by (rule exI)
  qed
  then obtain k :: int where k20: "20 \<le> real_of_int k * ulp"
    and kx: "real_of_int k * ulp \<le> \<bar>x\<bar>" and k0: "0 \<le> k"
    by blast
  have r20: "20 \<le> \<bar>r\<bar>"
  proof (cases "0 \<le> x")
    case True
    with kx have "real_of_int k \<le> x / ulp"
      using ulp_pos by (simp add: pos_le_divide_eq)
    then have "k \<le> round_half_even (x / ulp)" by (rule round_half_even_ge)
    then have "real_of_int k * ulp \<le> r"
      unfolding r_def using ulp_pos by (simp add: mult_right_mono)
    with k20 show ?thesis by linarith
  next
    case False
    with kx have "x / ulp \<le> real_of_int (- k)"
      using ulp_pos by (simp add: pos_divide_le_eq)
    then have "round_half_even (x / ulp) \<le> - k" by (rule round_half_even_le)
    then have "real_of_int (round_half_even (x / ulp)) \<le> real_of_int (- k)"
      by (simp only: of_int_le_iff)
    then have "r \<le> real_of_int (- k) * ulp"
      unfolding r_def using ulp_pos by (simp only: mult_right_mono less_imp_le)
    with k20 show ?thesis by simp
  qed
  have "round_double x = (if \<bar>r\<bar> \<ge> 2 ^ 1024 then sgn r * 2 ^ 1024 else r)"
    by (simp add: round_double_def Let_def r_def ulp_def e_def)
  moreover have "20 \<le> \<bar>sgn r * 2 ^ 1024\<bar>" if "\<bar>r\<bar> \<ge> 2 ^ 1024"
  proof -
    from that have "r \<noteq> 0" by auto
    then have "\<bar>sgn r * 2 ^ 1024\<bar> = (2::real) ^ 1024"
      by (simp add: abs_mult)
    then show ?thesis by simp
  qed
  ultimately show ?thesis using r20 by auto
qed


lemma round_double_of_int:
  assumes "\<bar>n\<bar> < 2 ^ 53"
  shows "round_double (real_of_int n) = real_of_int n"
proof (cases "n = 0")
  case True
  then show ?thesis
    by (simp add: round_double_def round_half_even_def Let_def)
next
  case False
  define e where "e = double_exponent (real_of_int n)"
  define ulp where "ulp = (2::real) powi (e - 52)"
  from False have "1 \<le> \<bar>n\<bar>" by simp
  then have "real_of_int 1 \<le> real_of_int \<bar>n\<bar>"
    by (simp only: of_int_le_iff)
  then have one: "1 \<le> \<bar>real_of_int n\<bar>" by simp
  then have "(2::real) powi 0 < 2 powi (e + 1)"
    using double_exponent_upper [of "real_of_int n"] by (simp add: e_def)
  then have "0 < e + 1" by (rule two_powi_less_D)
  then have e0: "0 \<le> e" by simp
  then have "- 1022 < double_exponent (real_of_int n)" by (simp add: e_def)
  then have "2 powi e \<le> \<bar>real_of_int n\<bar>"
    unfolding e_def by (rule double_exponent_lower)
  moreover from assms have "real_of_int \<bar>n\<bar> < real_of_int (2 ^ 53)"
    by (simp only: of_int_less_iff)
  then have "\<bar>real_of_int n\<bar> < 2 powi 53" by simp
  ultimately have "(2::real) powi e < 2 powi 53" by linarith
  then have "e < 53" by (rule two_powi_less_D)
  then have e52: "e \<le> 52" by simp
  have "ulp = 2 powi (- (52 - e))" by (simp add: ulp_def)
  also have "\<dots> = inverse (2 powi (52 - e))" by (rule power_int_minus)
  also have "(2::real) powi (52 - e) = 2 ^ nat (52 - e)"
    using e52 by (simp add: power_int_def)
  finally have ulp: "ulp = 1 / 2 ^ nat (52 - e)" by (simp add: inverse_eq_divide)
  have "real_of_int n / ulp = real_of_int (n * 2 ^ nat (52 - e))"
    by (simp add: ulp)
  then have "round_half_even (real_of_int n / ulp) = n * 2 ^ nat (52 - e)"
    by (simp only: round_half_even_of_int)
  then have r: "real_of_int (round_half_even (real_of_int n / ulp)) * ulp = real_of_int n"
    by (simp add: ulp)
  from assms have "real_of_int \<bar>n\<bar> < real_of_int (2 ^ 53)"
    by (simp only: of_int_less_iff)
  then have "\<bar>real_of_int n\<bar> < 2 ^ 53" by simp
  also have "(2::real) ^ 53 \<le> 2 ^ 1024" by (rule power_increasing) simp_all
  finally have small: "\<not> 2 ^ 1024 \<le> \<bar>real_of_int n\<bar>" by simp
  show ?thesis
    using r small
    by (simp add: round_double_def Let_def e_def [symmetric] ulp_def [symmetric])
qed

lemma float_sub_of_int:
  assumes "\<bar>a\<bar> < 2 ^ 52" "\<bar>b\<bar> < 2 ^ 52"
  shows "float_sub (real_of_int a) (real_of_int b) = real_of_int (a - b)"
proof -
  from assms have "\<bar>a - b\<bar> < 2 ^ 53" by simp
  then have "round_double (real_of_int (a - b)) = real_of_int (a - b)"
    by (rule round_double_of_int)
  then show ?thesis by (simp add: float_sub_def)
qed

lemma float_sub_ge_20: "20 \<le> \<bar>a - b\<bar> \<Longrightarrow> 20 \<le> \<bar>float_sub a b\<bar>"
  unfolding float_sub_def by (rule round_double_ge_20)

lemma round_double_just_below_20: "round_double (20 - 1 / 2 ^ 60) = 20"
proof -
  have "double_exponent (20 - 1 / 2 ^ 60) = 4"
    by (rule double_exponent_eqI) simp_all
  then show ?thesis
    by (simp add: round_double_def round_half_even_def Let_def)
qed


subsection \<open>Parameter validation\<close>

lemma status_distinct:
  "check_mark \<noteq> yellow_circle" "check_mark \<noteq> red_circle" "yellow_circle \<noteq> red_circle"
  by (simp_all add: check_mark_def yellow_circle_def red_circle_def)

lemma validate_parameter_of_int:
  assumes "\<bar>a\<bar> < 2 ^ 52" "\<bar>l\<bar> < 2 ^ 52" "\<bar>h\<bar> < 2 ^ 52"
  shows "validate_parameter p (real_of_int a) [real_of_int l, real_of_int h] =
     Inr (if l \<le> a \<and> a \<le> h then check_mark
          else if \<bar>a - l\<bar> < 20 \<or> \<bar>a - h\<bar> < 20 then yellow_circle
          else red_circle)"
proof -
  have "\<bar>float_sub (real_of_int a) (real_of_int l)\<bar> < 20 \<longleftrightarrow> \<bar>a - l\<bar> < 20"
    using float_sub_of_int [OF assms(1) assms(2)]
    by (metis of_int_abs of_int_less_iff of_int_numeral)
  moreover have "\<bar>float_sub (real_of_int a) (real_of_int h)\<bar> < 20 \<longleftrightarrow> \<bar>a - h\<bar> < 20"
    using float_sub_of_int [OF assms(1) assms(3)]
    by (metis of_int_abs of_int_less_iff of_int_numeral)
  ultimately show ?thesis by simp
qed

text \<open>
  C7 (as stated) fails at the boundary: 140 is outside [80,120] and within 20 units of the
  bound 120 (its distance is exactly 20), yet the status is the bad one, because the code
  compares with a strict \<open><\<close>.
\<close>

theorem boundary_value_is_bad:
  "validate_parameter ''Size'' 140 [80, 120] = Inr red_circle
   \<and> \<not> (80 \<le> (140::real) \<and> (140::real) \<le> 120) \<and> \<bar>140 - 120 :: real\<bar> \<le> 20"
  using validate_parameter_of_int [of 140 80 120 "''Size''"] by simp

text \<open>
  The difference that line 112 compares with 20 is the rounded one: 20 - 2^-60 rounds to
  20, so the value 20 is bad for the range [0, 2^-60] although it is less than 20 away
  from the upper bound.
\<close>

lemma rounded_difference_is_bad: "validate_parameter p 20 [0, 1 / 2 ^ 60] = Inr red_circle"
proof -
  have "float_sub 20 0 = 20"
    using float_sub_of_int [of 20 0] by simp
  moreover have "float_sub 20 (1 / 2 ^ 60) = 20"
    unfolding float_sub_def by (rule round_double_just_below_20)
  moreover have "\<not> (20::real) \<le> 1 / 2 ^ 60"
    by simp
  ultimately show ?thesis by (simp del: power_numeral)
qed

text \<open>
  C7 (amended). For every value and range [lo,hi], \<open>validate_parameter\<close> returns the ok
  status if and only if lo <= value <= hi; the warning status if and only if the value
  is outside the range and the difference to lo or to hi, as computed in double
  precision, is strictly less than 20 in absolute value; and the bad status otherwise.
  A warning value is always strictly less than 20 units away from a bound, and a value
  outside the range that is 20 or more units away from both bounds is always bad. For
  whole numbers below 2^52 in magnitude the computed differences are the exact ones. The
  value 20 is bad for [0, 2^-60]; \<open>validate("Size", 130, [80,120])\<close> is the warning
  status and \<open>validate("Size", 200, [80,120])\<close> the bad one.
\<close>

theorem validate_parameter_status:
  "(validate_parameter p v [lo, hi] = Inr check_mark \<longleftrightarrow> lo \<le> v \<and> v \<le> hi)
   \<and> (validate_parameter p v [lo, hi] = Inr yellow_circle
        \<longleftrightarrow> \<not> (lo \<le> v \<and> v \<le> hi) \<and> (\<bar>float_sub v lo\<bar> < 20 \<or> \<bar>float_sub v hi\<bar> < 20))
   \<and> (validate_parameter p v [lo, hi] = Inr red_circle
        \<longleftrightarrow> \<not> (lo \<le> v \<and> v \<le> hi) \<and> \<not> (\<bar>float_sub v lo\<bar> < 20 \<or> \<bar>float_sub v hi\<bar> < 20))
   \<and> (validate_parameter p v [lo, hi] = Inr yellow_circle
        \<longrightarrow> \<bar>v - lo\<bar> < 20 \<or> \<bar>v - hi\<bar> < 20)
   \<and> (\<not> (lo \<le> v \<and> v \<le> hi) \<and> 20 \<le> \<bar>v - lo\<bar> \<and> 20 \<le> \<bar>v - hi\<bar>
        \<longrightarrow> validate_parameter p v [lo, hi] = Inr red_circle)
   \<and> (\<bar>a\<bar> < 2 ^ 52 \<and> \<bar>l\<bar> < 2 ^ 52 \<and> \<bar>h\<bar> < 2 ^ 52
        \<longrightarrow> validate_parameter p (real_of_int a) [real_of_int l, real_of_int h] =
            Inr (if l \<le> a \<and> a \<le> h then check_mark
                 else if \<bar>a - l\<bar> < 20 \<or> \<bar>a - h\<bar> < 20 then yellow_circle
                 else red_circle))
   \<and> validate_parameter p 20 [0, 1 / 2 ^ 60] = Inr red_circle
   \<and> validate_parameter ''Size'' 130 [80, 120] = Inr yellow_circle
   \<and> validate_parameter ''Size'' 200 [80, 120] = Inr red_circle"
proof -
  have ok: "validate_parameter p v [lo, hi] = Inr check_mark \<longleftrightarrow> lo \<le> v \<and> v \<le> hi"
    using status_distinct by simp
  have warn: "validate_parameter p v [lo, hi] = Inr yellow_circle
        \<longleftrightarrow> \<not> (lo \<le> v \<and> v \<le> hi) \<and> (\<bar>float_sub v lo\<bar> < 20 \<or> \<bar>float_sub v hi\<bar> < 20)"
    using status_distinct by simp
  have bad: "validate_parameter p v [lo, hi] = Inr red_circle
        \<longleftrightarrow> \<not> (lo \<le> v \<and> v \<le> hi) \<and> \<not> (\<bar>float_sub v lo\<bar> < 20 \<or> \<bar>float_sub v hi\<bar> < 20)"
    using status_distinct by simp
  have near: "\<bar>float_sub v b\<bar> < 20 \<Longrightarrow> \<bar>v - b\<bar> < 20" for b
    using float_sub_ge_20 [of v b] by linarith
  from warn near have exact: "validate_parameter p v [lo, hi] = Inr yellow_circle
        \<longrightarrow> \<bar>v - lo\<bar> < 20 \<or> \<bar>v - hi\<bar> < 20"
    by blast
  have far: "\<not> (lo \<le> v \<and> v \<le> hi) \<and> 20 \<le> \<bar>v - lo\<bar> \<and> 20 \<le> \<bar>v - hi\<bar>
        \<longrightarrow> validate_parameter p v [lo, hi] = Inr red_circle"
  proof
    assume a: "\<not> (lo \<le> v \<and> v \<le> hi) \<and> 20 \<le> \<bar>v - lo\<bar> \<and> 20 \<le> \<bar>v - hi\<bar>"
    then have "\<not> \<bar>float_sub v lo\<bar> < 20" "\<not> \<bar>float_sub v hi\<bar> < 20"
      using float_sub_ge_20 [of v lo] float_sub_ge_20 [of v hi] by simp_all
    with a bad show "validate_parameter p v [lo, hi] = Inr red_circle" by blast
  qed
  have ints: "\<bar>a\<bar> < 2 ^ 52 \<and> \<bar>l\<bar> < 2 ^ 52 \<and> \<bar>h\<bar> < 2 ^ 52
        \<longrightarrow> validate_parameter p (real_of_int a) [real_of_int l, real_of_int h] =
            Inr (if l \<le> a \<and> a \<le> h then check_mark
                 else if \<bar>a - l\<bar> < 20 \<or> \<bar>a - h\<bar> < 20 then yellow_circle
                 else red_circle)"
    using validate_parameter_of_int [of a l h p] by blast
  have ex1: "validate_parameter ''Size'' 130 [80, 120] = Inr yellow_circle"
    using validate_parameter_of_int [of 130 80 120 "''Size''"] by simp
  have ex2: "validate_parameter ''Size'' 200 [80, 120] = Inr red_circle"
    using validate_parameter_of_int [of 200 80 120 "''Size''"] by simp
  from ok warn bad exact far ints rounded_difference_is_bad [of p] ex1 ex2 show ?thesis
    by blast
qed

theorem validate_parameter_status_witness:
  "validate_parameter ''Size'' 100 [80, 120] = Inr check_mark
   \<and> validate_parameter ''Size'' 70 [80, 120] = Inr yellow_circle
   \<and> validate_parameter ''Size'' 20 [80, 120] = Inr red_circle"
proof -
  have 1: "validate_parameter ''Size'' 100 [80, 120] = Inr check_mark"
    using validate_parameter_status [of "''Size''" 100 80 120] by simp
  have 2: "validate_parameter ''Size'' 70 [80, 120] = Inr yellow_circle"
    using validate_parameter_status [of "''Size''" 70 80 120 70 80 120] by simp
  have 3: "validate_parameter ''Size'' 20 [80, 120] = Inr red_circle"
    using validate_parameter_status [of "''Size''" 20 80 120] by simp
  from 1 2 3 show ?thesis by blast
qed

subsection \<open>Required and optional keys\<close>

text \<open>
  C8. When a required key is absent, \<open>compute_impact\<close> raises \<open>KeyError\<close> for the first
  absent one of Size, Charge, Encapsulation, and substitutes nothing. When all three are
  present it returns a result, and that result is the same as for the design in which
  every absent optional key (PDI, HydrodynamicSize, Stability, SurfaceArea,
  DegradationTime) holds its default; the Material entry does not influence the result.
\<close>

theorem missing_required_field:
  "(Size d = None \<longrightarrow> compute_impact d = Inl (KeyError ''Size''))
   \<and> (Size d = Some sz \<and> Charge d = None \<longrightarrow> compute_impact d = Inl (KeyError ''Charge''))
   \<and> (Size d = Some sz \<and> Charge d = Some ch \<and> Encapsulation d = None
        \<longrightarrow> compute_impact d = Inl (KeyError ''Encapsulation''))
   \<and> (Size d = Some sz \<and> Charge d = Some ch \<and> Encapsulation d = Some en
        \<longrightarrow> (\<exists>r. compute_impact d = Inr r)
            \<and> compute_impact d =
                compute_impact
                  (d\<lparr>PDI := Some (dict_get (PDI d) (15 / 100)),
                     HydrodynamicSize := Some (dict_get (HydrodynamicSize d) (sz * (12 / 10))),
                     Stability := Some (dict_get (Stability d) 85),
                     SurfaceArea := Some (dict_get (SurfaceArea d) 250),
                     DegradationTime := Some (dict_get (DegradationTime d) 30)\<rparr>))
   \<and> compute_impact (d\<lparr>Material := m\<rparr>) = compute_impact d"
proof -
  have no_size: "Size d = None \<longrightarrow> compute_impact d = Inl (KeyError ''Size'')"
    by (simp add: compute_impact_def)
  have no_charge: "Size d = Some sz \<and> Charge d = None
        \<longrightarrow> compute_impact d = Inl (KeyError ''Charge'')"
    by (simp add: compute_impact_def)
  have no_encap: "Size d = Some sz \<and> Charge d = Some ch \<and> Encapsulation d = None
        \<longrightarrow> compute_impact d = Inl (KeyError ''Encapsulation'')"
    by (simp add: compute_impact_def)
  have present: "Size d = Some sz \<and> Charge d = Some ch \<and> Encapsulation d = Some en
        \<longrightarrow> (\<exists>r. compute_impact d = Inr r)
            \<and> compute_impact d =
                compute_impact
                  (d\<lparr>PDI := Some (dict_get (PDI d) (15 / 100)),
                     HydrodynamicSize := Some (dict_get (HydrodynamicSize d) (sz * (12 / 10))),
                     Stability := Some (dict_get (Stability d) 85),
                     SurfaceArea := Some (dict_get (SurfaceArea d) 250),
                     DegradationTime := Some (dict_get (DegradationTime d) 30)\<rparr>)"
  proof
    assume a: "Size d = Some sz \<and> Charge d = Some ch \<and> Encapsulation d = Some en"
    then have r: "\<exists>r. compute_impact d = Inr r"
      by (simp add: compute_impact_Inr [of d sz ch en])
    from a have "compute_impact d =
                compute_impact
                  (d\<lparr>PDI := Some (dict_get (PDI d) (15 / 100)),
                     HydrodynamicSize := Some (dict_get (HydrodynamicSize d) (sz * (12 / 10))),
                     Stability := Some (dict_get (Stability d) 85),
                     SurfaceArea := Some (dict_get (SurfaceArea d) 250),
                     DegradationTime := Some (dict_get (DegradationTime d) 30)\<rparr>)"
      by (simp add: compute_impact_def dict_get_def Let_def)
    with r show "(\<exists>r. compute_impact d = Inr r)
            \<and> compute_impact d =
                compute_impact
                  (d\<lparr>PDI := Some (dict_get (PDI d) (15 / 100)),
                     HydrodynamicSize := Some (dict_get (HydrodynamicSize d) (sz * (12 / 10))),
                     Stability := Some (dict_get (Stability d) 85),
                     SurfaceArea := Some (dict_get (SurfaceArea d) 250),
                     DegradationTime := Some (dict_get (DegradationTime d) 30)\<rparr>)"
      by blast
  qed
  have material: "compute_impact (d\<lparr>Material := m\<rparr>) = compute_impact d"
    by (simp add: compute_impact_def split: option.splits)
  from no_size no_charge no_encap present material show ?thesis
    by blast
qed

theorem missing_required_field_witness:
  "compute_impact (example_design\<lparr>Size := None\<rparr>) = Inl (KeyError ''Size'')
   \<and> compute_impact (example_design\<lparr>Charge := None\<rparr>) = Inl (KeyError ''Charge'')
   \<and> compute_impact (example_design\<lparr>Encapsulation := None\<rparr>) = Inl (KeyError ''Encapsulation'')
   \<and> (\<exists>r. compute_impact example_design = Inr r)"
proof -
  have s: "Size (example_design\<lparr>Size := None\<rparr>) = None"
    by simp
  have c: "Size (example_design\<lparr>Charge := None\<rparr>) = Some 100
           \<and> Charge (example_design\<lparr>Charge := None\<rparr>) = None"
    by (simp add: example_design_def)
  have e: "Size (example_design\<lparr>Encapsulation := None\<rparr>) = Some 100
           \<and> Charge (example_design\<lparr>Encapsulation := None\<rparr>) = Some 5
           \<and> Encapsulation (example_design\<lparr>Encapsulation := None\<rparr>) = None"
    by (simp add: example_design_def)
  have p: "Size example_design = Some 100 \<and> Charge example_design = Some 5
           \<and> Encapsulation example_design = Some 85"
    by (simp add: example_design_def)
  from s missing_required_field [of "example_design\<lparr>Size := None\<rparr>"]
  have 1: "compute_impact (example_design\<lparr>Size := None\<rparr>) = Inl (KeyError ''Size'')"
    by blast
  from c missing_required_field [of "example_design\<lparr>Charge := None\<rparr>" 100]
  have 2: "compute_impact (example_design\<lparr>Charge := None\<rparr>) = Inl (KeyError ''Charge'')"
    by blast
  from e missing_required_field [of "example_design\<lparr>Encapsulation := None\<rparr>" 100 5]
  have 3: "compute_impact (example_design\<lparr>Encapsulation := None\<rparr>)
             = Inl (KeyError ''Encapsulation'')"
    by blast
  from p missing_required_field [of example_design 100 5 85]
  have 4: "\<exists>r. compute_impact example_design = Inr r"
    by blast
  from 1 2 3 4 show ?thesis
    by blast
qed

subsection \<open>The guard of the hydrodynamic ratio\<close>

text \<open>
  C9. \<open>compute_impact\<close> never raises \<open>ZeroDivisionError\<close>. For a size of zero the ratio is
  1, whose hydrodynamic score is 100, and a design with Size = 0 and the other required
  keys present gets a result whose Delivery is computed with that score.
\<close>

theorem hydrodynamic_division_guard:
  "compute_impact d \<noteq> Inl ZeroDivisionError
   \<and> size_ratio hyd_size 0 = Inr 1
   \<and> hydrodynamic_score 1 = 100
   \<and> (Size d = Some 0 \<and> Charge d = Some ch \<and> Encapsulation d = Some en
        \<longrightarrow> (\<exists>r. compute_impact d = Inr r
               \<and> Delivery r = delivery (size_score 0) (charge_score ch) en
                                 (pdi_score (dict_get (PDI d) (15 / 100))) 100
                                 (dict_get (Stability d) 85)))"
proof -
  have never: "compute_impact d \<noteq> Inl ZeroDivisionError"
    by (simp add: compute_impact_def size_ratio_def py_div_def Let_def
          split: option.splits)
  have ratio: "size_ratio hyd_size 0 = Inr 1"
    by (simp add: size_ratio_def)
  have score: "hydrodynamic_score 1 = 100"
    by (simp add: hydrodynamic_score_def)
  have zero: "Size d = Some 0 \<and> Charge d = Some ch \<and> Encapsulation d = Some en
        \<longrightarrow> (\<exists>r. compute_impact d = Inr r
               \<and> Delivery r = delivery (size_score 0) (charge_score ch) en
                                 (pdi_score (dict_get (PDI d) (15 / 100))) 100
                                 (dict_get (Stability d) 85))"
    by (simp add: compute_impact_def size_ratio_def Let_def score)
  from never ratio score zero show ?thesis
    by blast
qed

theorem hydrodynamic_division_guard_witness:
  "Size zero_size_design = Some 0 \<and> Charge zero_size_design = Some 5
   \<and> Encapsulation zero_size_design = Some 85
   \<and> (\<exists>r. compute_impact zero_size_design = Inr r)
   \<and> compute_impact zero_size_design \<noteq> Inl ZeroDivisionError"
  using hydrodynamic_division_guard [of zero_size_design 50 5 85]
  by (auto simp add: zero_size_design_def)



subsection \<open>The regulatory checklist\<close>

lemma passed_le_total:
  "sum_list (map (\<lambda>v. if v then 1 else 0) vs) \<le> (length vs :: nat)"
  by (induction vs) simp_all

lemma passed_positive:
  "True \<in> set vs \<Longrightarrow> 1 \<le> (sum_list (map (\<lambda>v. if v then 1 else 0) vs) :: nat)"
  by (induction vs) auto

lemma checklist_length: "length (checklist d sz ch en) = 8"
  by (simp add: checklist_def)

lemma checklist_sterilization: "True \<in> set (map snd (checklist d sz ch en))"
  by (simp add: checklist_def)

text \<open>
  C10. For every design with the required keys, \<open>regulatory_checklist\<close> returns k * 12.5
  for a whole number k between 1 and 8: the value lies in [12.5, 100] and is never 0,
  since the sterilization entry is always true.
\<close>

theorem regulatory_checklist_multiple:
  assumes "Size d = Some sz" "Charge d = Some ch" "Encapsulation d = Some en"
  shows "\<exists>p k. regulatory_checklist d = Inr p \<and> p = real k * (125 / 10)
           \<and> 1 \<le> k \<and> k \<le> (8::nat) \<and> 125 / 10 \<le> p \<and> p \<le> 100 \<and> p \<noteq> 0"
proof -
  define vs where "vs = map snd (checklist d sz ch en)"
  define k where "k = (sum_list (map (\<lambda>v. if v then 1 else 0) vs) :: nat)"
  have len: "length vs = 8"
    by (simp add: vs_def checklist_length)
  have lower: "1 \<le> k"
    unfolding k_def vs_def by (rule passed_positive) (rule checklist_sterilization)
  have upper: "k \<le> 8"
    using passed_le_total [of vs] by (simp add: k_def len)
  from len have nonempty: "vs \<noteq> []"
    by auto
  have res: "regulatory_checklist d = Inr (real k / 8 * 100)"
    using assms len nonempty
    by (simp add: regulatory_checklist_def py_div_def Let_def vs_def [symmetric] k_def [symmetric])
  have eq: "real k / 8 * 100 = real k * (125 / 10)"
    by simp
  from lower have low: "125 / 10 \<le> real k * (125 / 10)"
    by simp
  from upper have "real k \<le> 8"
    by simp
  then have high: "real k * (125 / 10) \<le> 100"
    by simp
  from low have nz: "real k * (125 / 10) \<noteq> 0"
    by simp
  from res eq have res': "regulatory_checklist d = Inr (real k * (125 / 10))"
    by (simp only:)
  from res' lower upper low high nz show ?thesis
    by blast
qed

theorem regulatory_checklist_multiple_witness:
  "Size optimal_design = Some 100 \<and> Charge optimal_design = Some 0
   \<and> Encapsulation optimal_design = Some 90
   \<and> (\<exists>p. regulatory_checklist optimal_design = Inr p \<and> 125 / 10 \<le> p \<and> p \<le> 100)"
proof -
  have h: "Size optimal_design = Some 100" "Charge optimal_design = Some 0"
    "Encapsulation optimal_design = Some 90"
    by (simp_all add: optimal_design_def)
  from regulatory_checklist_multiple [OF h]
  have "\<exists>p. regulatory_checklist optimal_design = Inr p \<and> 125 / 10 \<le> p \<and> p \<le> 100"
    by blast
  with h show ?thesis
    by blast
qed

lemma optimal_design_passes_all: "regulatory_checklist optimal_design = Inr 100"
  by (simp add: regulatory_checklist_def checklist_def optimal_design_def dict_get_def
        material_approved_def approved_materials_def py_div_def)

end
